theory Spec2Isabelle
  imports Complex_Main
begin

section \<open>Numeric values\<close>

text \<open>
  The program works on numpy double-precision values. They are modelled as exact real
  numbers extended with the three special values that numpy arithmetic produces instead of
  raising: positive infinity, negative infinity and not-a-number. Rounding, overflow and the
  sign of zero are not tracked: a finite operation gives the exact real result, and a nonzero
  finite value divided by zero takes the sign of the numerator.
\<close>

datatype npfloat = Fin real | PInf | NInf | NaN

fun fl_neg :: "npfloat \<Rightarrow> npfloat" where
  "fl_neg (Fin a) = Fin (- a)"
| "fl_neg PInf = NInf"
| "fl_neg NInf = PInf"
| "fl_neg NaN = NaN"

fun fl_add :: "npfloat \<Rightarrow> npfloat \<Rightarrow> npfloat" where
  "fl_add NaN _ = NaN"
| "fl_add _ NaN = NaN"
| "fl_add PInf NInf = NaN"
| "fl_add NInf PInf = NaN"
| "fl_add PInf _ = PInf"
| "fl_add _ PInf = PInf"
| "fl_add NInf _ = NInf"
| "fl_add _ NInf = NInf"
| "fl_add (Fin a) (Fin b) = Fin (a + b)"

definition fl_sub :: "npfloat \<Rightarrow> npfloat \<Rightarrow> npfloat" where
  "fl_sub a b = fl_add a (fl_neg b)"

text \<open>The sign of an infinite product or quotient with a finite operand.\<close>

definition signed_inf :: "bool \<Rightarrow> npfloat" where
  "signed_inf positive = (if positive then PInf else NInf)"

fun fl_mul :: "npfloat \<Rightarrow> npfloat \<Rightarrow> npfloat" where
  "fl_mul NaN _ = NaN"
| "fl_mul _ NaN = NaN"
| "fl_mul (Fin a) (Fin b) = Fin (a * b)"
| "fl_mul (Fin a) PInf = (if a = 0 then NaN else signed_inf (0 < a))"
| "fl_mul (Fin a) NInf = (if a = 0 then NaN else signed_inf (a < 0))"
| "fl_mul PInf (Fin b) = (if b = 0 then NaN else signed_inf (0 < b))"
| "fl_mul NInf (Fin b) = (if b = 0 then NaN else signed_inf (b < 0))"
| "fl_mul PInf PInf = PInf"
| "fl_mul NInf NInf = PInf"
| "fl_mul PInf NInf = NInf"
| "fl_mul NInf PInf = NInf"

text \<open>
  Division of numpy scalars never raises: a zero divisor gives an infinity, or not-a-number
  when the numerator is zero as well (numpy prints a RuntimeWarning and carries on).
\<close>

fun fl_div :: "npfloat \<Rightarrow> npfloat \<Rightarrow> npfloat" where
  "fl_div NaN _ = NaN"
| "fl_div _ NaN = NaN"
| "fl_div (Fin a) (Fin b) =
     (if b = 0 then (if a = 0 then NaN else signed_inf (0 < a)) else Fin (a / b))"
| "fl_div (Fin a) PInf = Fin 0"
| "fl_div (Fin a) NInf = Fin 0"
| "fl_div PInf (Fin b) = signed_inf (0 \<le> b)"
| "fl_div NInf (Fin b) = signed_inf (b < 0)"
| "fl_div PInf PInf = NaN"
| "fl_div PInf NInf = NaN"
| "fl_div NInf PInf = NaN"
| "fl_div NInf NInf = NaN"

text \<open>\<open>np.sqrt\<close>: not-a-number on a negative argument.\<close>

fun fl_sqrt :: "npfloat \<Rightarrow> npfloat" where
  "fl_sqrt (Fin a) = (if a < 0 then NaN else Fin (sqrt a))"
| "fl_sqrt PInf = PInf"
| "fl_sqrt NInf = NaN"
| "fl_sqrt NaN = NaN"

text \<open>\<open>x ** 2\<close> on a numpy scalar.\<close>

definition fl_square :: "npfloat \<Rightarrow> npfloat" where
  "fl_square x = fl_mul x x"

primrec fl_sum :: "npfloat list \<Rightarrow> npfloat" where
  "fl_sum [] = Fin 0"
| "fl_sum (x # xs) = fl_add x (fl_sum xs)"

text \<open>
  Two tests on values, used to state properties of the results: \<open>np.isfinite\<close>, and the
  comparison \<open><=\<close> of numpy scalars, which is false whenever an operand is not-a-number.
\<close>

fun np_isfinite :: "npfloat \<Rightarrow> bool" where
  "np_isfinite (Fin a) = True"
| "np_isfinite PInf = False"
| "np_isfinite NInf = False"
| "np_isfinite NaN = False"

fun fl_le :: "npfloat \<Rightarrow> npfloat \<Rightarrow> bool" where
  "fl_le NaN _ = False"
| "fl_le _ NaN = False"
| "fl_le (Fin a) (Fin b) = (a \<le> b)"
| "fl_le NInf _ = True"
| "fl_le _ PInf = True"
| "fl_le PInf _ = False"
| "fl_le (Fin a) NInf = False"

section \<open>The numpy reductions the program calls\<close>

text \<open>
  \<open>np.mean\<close>, \<open>np.var\<close> and \<open>np.std\<close> with their default arguments. The variance
  is the mean of the squared deviations from the mean, divided by the number of elements
  (\<open>ddof = 0\<close>). On an empty array the division is zero by zero, hence not-a-number.
\<close>

definition np_mean :: "npfloat list \<Rightarrow> npfloat" where
  "np_mean a = fl_div (fl_sum a) (Fin (real (length a)))"

definition deviations :: "npfloat list \<Rightarrow> npfloat list" where
  "deviations a = map (\<lambda>v. fl_sub v (np_mean a)) a"

definition np_var :: "npfloat list \<Rightarrow> npfloat" where
  "np_var a = fl_div (fl_sum (map fl_square (deviations a))) (Fin (real (length a)))"

definition np_std :: "npfloat list \<Rightarrow> npfloat" where
  "np_std a = fl_sqrt (np_var a)"

text \<open>
  \<open>np.cov(x, y)[0, 1]\<close> with the default arguments (\<open>bias = False\<close>, \<open>ddof = None\<close>):
  the two arrays are stacked, which raises \<open>ValueError\<close> when their lengths differ; the
  normalisation factor is the number of observations minus one, replaced by zero when that
  is not positive; the sum of the products of the deviations is multiplied by the
  reciprocal of the factor.
\<close>

datatype py_error = ValueError

definition np_cov_01 :: "npfloat list \<Rightarrow> npfloat list \<Rightarrow> py_error + npfloat" where
  "np_cov_01 x y =
     (if length x \<noteq> length y then Inl ValueError
      else
        let fact = int (length x) - 1;
            fact = (if fact \<le> 0 then 0 else fact);
            c = fl_sum (map2 fl_mul (deviations x) (deviations y))
        in Inr (fl_mul c (fl_div (Fin 1) (Fin (of_int fact)))))"

section \<open>The hedge ratio calculation\<close>

record effectiveness =
  rsquared :: npfloat
  variance_reduction :: npfloat
  var_reduction :: npfloat

record hedge_result =
  optimal_hedge_ratio :: npfloat
  portfolio_variance :: npfloat
  correlation :: npfloat
  hedge_effectiveness :: effectiveness
  hedged_variance :: npfloat
  unhedged_variance :: npfloat

text \<open>
  The body of \<open>calculate_optimal_hedge_ratio\<close>, statement by statement, with the value of
  \<open>stats.norm.ppf(confidence_level)\<close> as the parameter \<open>z_score\<close>.
\<close>

definition hedge_ratio_body :: "real \<Rightarrow> npfloat list \<Rightarrow> npfloat list \<Rightarrow> py_error + hedge_result" where
  "hedge_ratio_body z_score hedged unhedged =
     (let var_hedged = np_var hedged;
          var_unhedged = np_var unhedged
      in case np_cov_01 hedged unhedged of
           Inl e \<Rightarrow> Inl e
         | Inr covariance \<Rightarrow>
            let ratio = fl_div covariance var_hedged;
                pvariance =
                  fl_sub (fl_add var_unhedged (fl_mul (fl_square ratio) var_hedged))
                         (fl_mul (fl_mul (Fin 2) ratio) covariance);
                corr = fl_div covariance (fl_mul (np_std hedged) (np_std unhedged));
                hedge_effectiveness_rsquared = fl_square corr;
                vreduction = fl_div (fl_sub var_unhedged pvariance) var_unhedged;
                var_unhedged_position = fl_mul (Fin (- z_score)) (fl_sqrt var_unhedged);
                var_hedged_portfolio = fl_mul (Fin (- z_score)) (fl_sqrt pvariance);
                value_at_risk_reduction =
                  fl_div (fl_sub var_unhedged_position var_hedged_portfolio)
                         var_unhedged_position
            in Inr \<lparr> optimal_hedge_ratio = ratio,
                     portfolio_variance = pvariance,
                     correlation = corr,
                     hedge_effectiveness =
                       \<lparr> rsquared = hedge_effectiveness_rsquared,
                         variance_reduction = vreduction,
                         var_reduction = value_at_risk_reduction \<rparr>,
                     hedged_variance = var_hedged,
                     unhedged_variance = var_unhedged \<rparr>)"

text \<open>
  The confidence level is the constant 0.95 inside the function, not an argument. The
  normal quantile is scipy's; its double-precision value is written out.
\<close>

definition norm_ppf_95 :: real where
  "norm_ppf_95 = 16448536269514722 / 10000000000000000"

definition calculate_optimal_hedge_ratio :: "npfloat list \<Rightarrow> npfloat list \<Rightarrow> py_error + hedge_result" where
  "calculate_optimal_hedge_ratio hedged_returns unhedged_returns =
     hedge_ratio_body norm_ppf_95 hedged_returns unhedged_returns"

section \<open>The statistics in the specification's words\<close>

text \<open>
  The specification describes the moments over plain numbers: the variance is the mean of
  the squared deviations from the mean with divisor N, and the covariance is the mean of the
  products of the deviations with the same divisor N. The sample covariance, with divisor
  N - 1, is what the specification rules out. These definitions are written from the
  specification, to be compared with the numpy reductions above.
\<close>

definition mean :: "real list \<Rightarrow> real" where
  "mean xs = sum_list xs / real (length xs)"

definition dev_products :: "real list \<Rightarrow> real list \<Rightarrow> real" where
  "dev_products xs ys = (\<Sum>(x, y)\<leftarrow>zip xs ys. (x - mean xs) * (y - mean ys))"

definition population_variance :: "real list \<Rightarrow> real" where
  "population_variance xs = (\<Sum>x\<leftarrow>xs. (x - mean xs)\<^sup>2) / real (length xs)"

definition population_covariance :: "real list \<Rightarrow> real list \<Rightarrow> real" where
  "population_covariance xs ys = dev_products xs ys / real (length xs)"

definition sample_covariance :: "real list \<Rightarrow> real list \<Rightarrow> real" where
  "sample_covariance xs ys = dev_products xs ys / (real (length xs) - 1)"

section \<open>Arithmetic on finite values\<close>

lemma fl_sub_Fin [simp]: "fl_sub (Fin a) (Fin b) = Fin (a - b)"
  by (simp add: fl_sub_def)

lemma fl_square_Fin [simp]: "fl_square (Fin a) = Fin (a\<^sup>2)"
  by (simp add: fl_square_def power2_eq_square)

lemma fl_sum_Fin: "fl_sum (map Fin xs) = Fin (sum_list xs)"
  by (induction xs) simp_all

lemma fl_sum_map_Fin: "fl_sum (map (\<lambda>v. Fin (f v)) xs) = Fin (\<Sum>v\<leftarrow>xs. f v)"
  by (induction xs) simp_all

lemma fl_sum_map_Fin2:
  "fl_sum (map (\<lambda>(x, y). Fin (f x y)) ps) = Fin (\<Sum>(x, y)\<leftarrow>ps. f x y)"
  by (induction ps) auto

lemma map2_fl_mul_Fin:
  "map2 fl_mul (map (\<lambda>v. Fin (f v)) xs) (map (\<lambda>v. Fin (g v)) ys)
     = map (\<lambda>(x, y). Fin (f x * g y)) (zip xs ys)"
  by (simp add: zip_map_map split_def)

text \<open>A finite result comes from finite operands only.\<close>

lemma fl_add_eq_Fin: "fl_add a b = Fin v \<Longrightarrow> \<exists>x y. a = Fin x \<and> b = Fin y \<and> v = x + y"
  by (cases a; cases b) auto

lemma fl_sub_eq_Fin: "fl_sub a b = Fin v \<Longrightarrow> \<exists>x y. a = Fin x \<and> b = Fin y \<and> v = x - y"
  by (cases a; cases b) (auto simp: fl_sub_def)

lemma fl_mul_eq_Fin: "fl_mul a b = Fin v \<Longrightarrow> \<exists>x y. a = Fin x \<and> b = Fin y \<and> v = x * y"
  by (cases a; cases b) (auto simp: signed_inf_def split: if_splits)

lemma fl_div_Fin_eq_Fin: "fl_div a (Fin y) = Fin v \<Longrightarrow> \<exists>x. a = Fin x \<and> y \<noteq> 0 \<and> v = x / y"
  by (cases a) (auto simp: signed_inf_def split: if_splits)

lemma fl_sum_squares_nonneg: "fl_sum (map fl_square ds) = Fin s \<Longrightarrow> 0 \<le> s"
proof (induction ds arbitrary: s)
  case Nil
  then show ?case by simp
next
  case (Cons d ds)
  from Cons.prems obtain x y where
    x: "fl_square d = Fin x" and y: "fl_sum (map fl_square ds) = Fin y" and s: "s = x + y"
    by (auto dest: fl_add_eq_Fin)
  from x obtain e where "d = Fin e" and "x = e * e"
    by (auto simp: fl_square_def dest: fl_mul_eq_Fin)
  then have "0 \<le> x" by simp
  moreover have "0 \<le> y" using Cons.IH [OF y] .
  ultimately show ?case using s by simp
qed

text \<open>
  Division by zero never gives a finite value, and a value that is not finite stays so
  through the operations that follow it.
\<close>

lemma fl_div_zero_nonfinite: "\<not> np_isfinite (fl_div a (Fin 0))"
  by (cases a) (auto simp: signed_inf_def)

lemma fl_div_NaN_right [simp]: "fl_div a NaN = NaN"
  by (cases a) auto

lemma fl_mul_NaN_right [simp]: "fl_mul a NaN = NaN"
  by (cases a) auto

lemma fl_add_NaN_right [simp]: "fl_add a NaN = NaN"
  by (cases a) auto

lemma fl_sub_NaN_left [simp]: "fl_sub NaN b = NaN"
  by (simp add: fl_sub_def)

lemma fl_sub_NaN_right [simp]: "fl_sub a NaN = NaN"
  by (simp add: fl_sub_def)

lemma fl_square_nonfinite: "\<not> np_isfinite a \<Longrightarrow> \<not> np_isfinite (fl_square a)"
  by (cases a) (auto simp: fl_square_def)

lemma fl_square_nonfinite_times_zero:
  "\<not> np_isfinite a \<Longrightarrow> fl_mul (fl_square a) (Fin 0) = NaN"
  by (cases a) (auto simp: fl_square_def)

lemma fl_mul_zero_left: "fl_mul (Fin 0) b = Fin 0 \<or> fl_mul (Fin 0) b = NaN"
  by (cases b) auto

lemma fl_mul_zero_right: "fl_mul a (Fin 0) = Fin 0 \<or> fl_mul a (Fin 0) = NaN"
  by (cases a) auto

lemma fl_div_zero_or_NaN_nonfinite:
  "d = Fin 0 \<or> d = NaN \<Longrightarrow> \<not> np_isfinite (fl_div a d)"
  using fl_div_zero_nonfinite by auto

section \<open>The numpy reductions on finite series\<close>

lemma np_mean_Fin: "xs \<noteq> [] \<Longrightarrow> np_mean (map Fin xs) = Fin (mean xs)"
  by (simp add: np_mean_def mean_def fl_sum_Fin)

lemma deviations_Fin:
  "xs \<noteq> [] \<Longrightarrow> deviations (map Fin xs) = map (\<lambda>v. Fin (v - mean xs)) xs"
  by (simp add: deviations_def np_mean_Fin comp_def)

lemma np_var_Fin: "xs \<noteq> [] \<Longrightarrow> np_var (map Fin xs) = Fin (population_variance xs)"
  by (simp add: np_var_def deviations_Fin comp_def fl_sum_map_Fin population_variance_def)

lemma np_cov_01_Fin:
  assumes "length xs = length ys" and "2 \<le> length xs"
  shows "np_cov_01 (map Fin xs) (map Fin ys) = Inr (Fin (sample_covariance xs ys))"
proof -
  from assms have ne: "xs \<noteq> []" "ys \<noteq> []" by auto
  have fact: "\<not> int (length ys) - 1 \<le> 0" using assms by simp
  have "real (length ys) - 1 \<noteq> 0" using assms by simp
  then show ?thesis
    using assms fact
    by (simp add: np_cov_01_def Let_def deviations_Fin ne map2_fl_mul_Fin fl_sum_map_Fin2
        sample_covariance_def dev_products_def)
qed

section \<open>Facts about the moments\<close>

lemma np_var_nonneg: "np_var a = Fin v \<Longrightarrow> 0 \<le> v"
proof -
  assume "np_var a = Fin v"
  then obtain s where "fl_sum (map fl_square (deviations a)) = Fin s"
    and "v = s / real (length a)"
    by (auto simp: np_var_def dest: fl_div_Fin_eq_Fin)
  then show ?thesis using fl_sum_squares_nonneg by auto
qed

lemma population_variance_nonneg: "0 \<le> population_variance xs"
  unfolding population_variance_def
  by (intro divide_nonneg_nonneg sum_list_nonneg) auto

text \<open>The fields of a returned result, in terms of the three moments.\<close>

lemma body_fields:
  assumes "hedge_ratio_body z h u = Inr r"
  shows "\<exists>c. np_cov_01 h u = Inr c
     \<and> hedged_variance r = np_var h
     \<and> unhedged_variance r = np_var u
     \<and> optimal_hedge_ratio r = fl_div c (np_var h)
     \<and> portfolio_variance r =
         fl_sub (fl_add (np_var u) (fl_mul (fl_square (fl_div c (np_var h))) (np_var h)))
                (fl_mul (fl_mul (Fin 2) (fl_div c (np_var h))) c)
     \<and> correlation r = fl_div c (fl_mul (fl_sqrt (np_var h)) (fl_sqrt (np_var u)))
     \<and> rsquared (hedge_effectiveness r) = fl_square (correlation r)
     \<and> variance_reduction (hedge_effectiveness r) =
         fl_div (fl_sub (np_var u) (portfolio_variance r)) (np_var u)
     \<and> var_reduction (hedge_effectiveness r) =
         fl_div (fl_sub (fl_mul (Fin (- z)) (fl_sqrt (np_var u)))
                        (fl_mul (Fin (- z)) (fl_sqrt (portfolio_variance r))))
                (fl_mul (Fin (- z)) (fl_sqrt (np_var u)))"
  using assms
  by (auto simp: hedge_ratio_body_def Let_def np_std_def split: sum.splits)

lemma equal_length_returns:
  "length h = length u \<Longrightarrow> \<exists>r. hedge_ratio_body z h u = Inr r"
  by (simp add: hedge_ratio_body_def np_cov_01_def Let_def)

lemma body_finite_moments:
  assumes "length xs = length ys" and "2 \<le> length xs"
  shows "hedge_ratio_body z (map Fin xs) (map Fin ys) =
     (let var_hedged = Fin (population_variance xs);
          var_unhedged = Fin (population_variance ys);
          covariance = Fin (sample_covariance xs ys);
          ratio = fl_div covariance var_hedged;
          pvariance =
            fl_sub (fl_add var_unhedged (fl_mul (fl_square ratio) var_hedged))
                   (fl_mul (fl_mul (Fin 2) ratio) covariance);
          corr = fl_div covariance (fl_mul (fl_sqrt var_hedged) (fl_sqrt var_unhedged));
          vreduction = fl_div (fl_sub var_unhedged pvariance) var_unhedged;
          var_unhedged_position = fl_mul (Fin (- z)) (fl_sqrt var_unhedged);
          var_hedged_portfolio = fl_mul (Fin (- z)) (fl_sqrt pvariance)
      in Inr \<lparr> optimal_hedge_ratio = ratio,
               portfolio_variance = pvariance,
               correlation = corr,
               hedge_effectiveness =
                 \<lparr> rsquared = fl_square corr,
                   variance_reduction = vreduction,
                   var_reduction =
                     fl_div (fl_sub var_unhedged_position var_hedged_portfolio)
                            var_unhedged_position \<rparr>,
               hedged_variance = var_hedged,
               unhedged_variance = var_unhedged \<rparr>)"
proof -
  from assms have ne: "xs \<noteq> []" "ys \<noteq> []" by auto
  show ?thesis
    by (simp add: hedge_ratio_body_def np_std_def np_var_Fin ne np_cov_01_Fin [OF assms] Let_def)
qed

section \<open>Runs on concrete series\<close>

lemmas run_defs = calculate_optimal_hedge_ratio_def hedge_ratio_body_def np_cov_01_def
  np_var_def np_std_def deviations_def np_mean_def Let_def fl_square_def fl_sub_def
  signed_inf_def norm_ppf_95_def

lemma run_reversed_three:
  "calculate_optimal_hedge_ratio [Fin 1, Fin 2, Fin 3] [Fin 3, Fin 2, Fin 1] =
     Inr \<lparr> optimal_hedge_ratio = Fin (- 3 / 2), portfolio_variance = Fin (- 5 / 6),
           correlation = Fin (- 3 / 2),
           hedge_effectiveness =
             \<lparr> rsquared = Fin (9 / 4), variance_reduction = Fin (9 / 4),
               var_reduction = NaN \<rparr>,
           hedged_variance = Fin (2 / 3), unhedged_variance = Fin (2 / 3) \<rparr>"
  by (simp add: run_defs)

lemma run_uncorrelated_four:
  "calculate_optimal_hedge_ratio [Fin 1, Fin (- 1), Fin 1, Fin (- 1)]
                                 [Fin 1, Fin 1, Fin (- 1), Fin (- 1)] =
     Inr \<lparr> optimal_hedge_ratio = Fin 0, portfolio_variance = Fin 1,
           correlation = Fin 0,
           hedge_effectiveness =
             \<lparr> rsquared = Fin 0, variance_reduction = Fin 0, var_reduction = Fin 0 \<rparr>,
           hedged_variance = Fin 1, unhedged_variance = Fin 1 \<rparr>"
  by (simp add: run_defs)

lemma sqrt_nine_twentieths: "sqrt (9 / 20) = 3 / 5 * sqrt (5 / 4)"
proof -
  have "sqrt (9 / 20) = sqrt ((3 / 5)\<^sup>2 * (5 / 4))"
    by (simp add: power2_eq_square)
  also have "\<dots> = sqrt ((3 / 5)\<^sup>2) * sqrt (5 / 4)"
    by (rule real_sqrt_mult)
  also have "sqrt ((3 / 5)\<^sup>2) = (3 / 5 :: real)"
    by simp
  finally show ?thesis .
qed

lemma run_partly_hedged_four:
  "calculate_optimal_hedge_ratio [Fin 1, Fin 2, Fin 3, Fin 4] [Fin 2, Fin 1, Fin 4, Fin 3] =
     Inr \<lparr> optimal_hedge_ratio = Fin (4 / 5), portfolio_variance = Fin (9 / 20),
           correlation = Fin (4 / 5),
           hedge_effectiveness =
             \<lparr> rsquared = Fin (16 / 25), variance_reduction = Fin (16 / 25),
               var_reduction = Fin (2 / 5) \<rparr>,
           hedged_variance = Fin (5 / 4), unhedged_variance = Fin (5 / 4) \<rparr>"
  by (simp add: run_defs sqrt_nine_twentieths)

lemma cov_partly_hedged_four:
  "np_cov_01 [Fin 1, Fin 2, Fin 3, Fin 4] [Fin 2, Fin 1, Fin 4, Fin 3] = Inr (Fin 1)"
  by (simp add: run_defs)

lemma run_constant_hedged_two:
  "calculate_optimal_hedge_ratio [Fin 3, Fin 3] [Fin 1, Fin 2] =
     Inr \<lparr> optimal_hedge_ratio = NaN, portfolio_variance = NaN,
           correlation = NaN,
           hedge_effectiveness =
             \<lparr> rsquared = NaN, variance_reduction = NaN, var_reduction = NaN \<rparr>,
           hedged_variance = Fin 0, unhedged_variance = Fin (1 / 4) \<rparr>"
  by (simp add: run_defs)

lemma run_constant_unhedged_two:
  "calculate_optimal_hedge_ratio [Fin 1, Fin 2] [Fin 3, Fin 3] =
     Inr \<lparr> optimal_hedge_ratio = Fin 0, portfolio_variance = Fin 0,
           correlation = NaN,
           hedge_effectiveness =
             \<lparr> rsquared = NaN, variance_reduction = NaN, var_reduction = NaN \<rparr>,
           hedged_variance = Fin (1 / 4), unhedged_variance = Fin 0 \<rparr>"
  by (simp add: run_defs)

section \<open>The divisors of the second moments\<close>

text \<open>
  On finite series the variance computed by the function is the population variance of the
  specification, and the covariance it computes is the sample covariance: the population
  covariance multiplied by N / (N - 1).
\<close>

lemma sample_covariance_scaled:
  assumes "2 \<le> length xs"
  shows "sample_covariance xs ys =
         population_covariance xs ys * (real (length xs) / (real (length xs) - 1))"
proof -
  have "real (length xs) \<noteq> 0" and "real (length xs) - 1 \<noteq> 0"
    using assms by auto
  then show ?thesis
    by (simp add: sample_covariance_def population_covariance_def)
qed

text \<open>
  Hence a non-constant finite series paired with itself gets the hedge ratio and the
  correlation N / (N - 1), whatever its values.
\<close>

lemma dev_products_self: "dev_products xs xs = (\<Sum>x\<leftarrow>xs. (x - mean xs)\<^sup>2)"
  by (simp add: dev_products_def zip_same_conv_map comp_def power2_eq_square)

lemma identical_series_ratio:
  assumes "2 \<le> length xs" and "population_variance xs \<noteq> 0"
  shows "\<exists>r. calculate_optimal_hedge_ratio (map Fin xs) (map Fin xs) = Inr r
     \<and> optimal_hedge_ratio r = Fin (real (length xs) / (real (length xs) - 1))
     \<and> correlation r = Fin (real (length xs) / (real (length xs) - 1))"
proof -
  define n where "n = real (length xs)"
  define v where "v = population_variance xs"
  have n: "n \<noteq> 0" "n - 1 \<noteq> 0" using assms(1) by (auto simp: n_def)
  have v0: "v \<noteq> 0" using assms(2) by (simp add: v_def)
  have vpos: "0 \<le> v" by (simp add: v_def population_variance_nonneg)
  have "dev_products xs xs = n * v"
    using n by (simp add: dev_products_self v_def population_variance_def n_def)
  then have c: "sample_covariance xs xs = n * v / (n - 1)"
    by (simp add: sample_covariance_def n_def)
  note run = body_finite_moments [OF refl assms(1), of norm_ppf_95 , unfolded c, folded v_def]
  show ?thesis
    unfolding calculate_optimal_hedge_ratio_def run using v0 vpos n
    by (simp add: Let_def n_def [symmetric])
qed

text \<open>
  Claim C1. The claim says that the variances and the covariance all use the divisor N.
  The variances do. The covariance of the series 1, 2, 3, 4, 5 with itself is computed as
  10 / 4 = 5 / 2, with the divisor N - 1, where the population covariance is 10 / 5 = 2.
\<close>

theorem covariance_divisor_at_one_to_five:
  "np_cov_01 (map Fin [1, 2, 3, 4, 5]) (map Fin [1, 2, 3, 4, 5]) = Inr (Fin (5 / 2))
   \<and> population_covariance [1, 2, 3, 4, 5] [1, 2, 3, 4, 5] = 2
   \<and> np_var (map Fin [1, 2, 3, 4, 5]) = Fin 2
   \<and> population_variance [1, 2, 3, 4, 5] = 2"
  by (simp add: run_defs population_covariance_def population_variance_def dev_products_def
      mean_def)

text \<open>
  Claim C2. The claim says that the returned correlation lies between -1 and 1. The
  correlation divides the sample covariance by the product of the population standard
  deviations: for the series 1, 2, 3 paired with itself the function returns 3 / 2.
\<close>

theorem correlation_at_one_to_three:
  "calculate_optimal_hedge_ratio [Fin 1, Fin 2, Fin 3] [Fin 1, Fin 2, Fin 3] =
     Inr \<lparr> optimal_hedge_ratio = Fin (3 / 2), portfolio_variance = Fin (- 5 / 6),
           correlation = Fin (3 / 2),
           hedge_effectiveness =
             \<lparr> rsquared = Fin (9 / 4), variance_reduction = Fin (9 / 4),
               var_reduction = NaN \<rparr>,
           hedged_variance = Fin (2 / 3), unhedged_variance = Fin (2 / 3) \<rparr>"
  by (simp add: run_defs)

text \<open>
  Claim C4. The claim says that two identical non-constant series give a hedge ratio, a
  correlation and an R-squared of 1, a portfolio variance of about 0 and a variance
  reduction of about 1. For the series 1, 2, 3, 4, 5 the function returns 5 / 4, 5 / 4,
  25 / 16, - 9 / 8 and 25 / 16.
\<close>

theorem identical_series_at_one_to_five:
  "calculate_optimal_hedge_ratio [Fin 1, Fin 2, Fin 3, Fin 4, Fin 5]
                                 [Fin 1, Fin 2, Fin 3, Fin 4, Fin 5] =
     Inr \<lparr> optimal_hedge_ratio = Fin (5 / 4), portfolio_variance = Fin (- 9 / 8),
           correlation = Fin (5 / 4),
           hedge_effectiveness =
             \<lparr> rsquared = Fin (25 / 16), variance_reduction = Fin (25 / 16),
               var_reduction = NaN \<rparr>,
           hedged_variance = Fin 2, unhedged_variance = Fin 2 \<rparr>"
  by (simp add: run_defs)

section \<open>Degenerate and invalid input\<close>

text \<open>
  Claim C3, as stated: a constant series makes the computation raise. It does not: on the
  hedged series 1, -1, 1, -1, 1 and the constant unhedged series 1, 1, 1, 1, 1 the function
  returns a result, whose correlation, R-squared, variance reduction and VaR reduction are
  not-a-number.
\<close>

theorem constant_unhedged_returns_counterexample:
  "calculate_optimal_hedge_ratio [Fin 1, Fin (- 1), Fin 1, Fin (- 1), Fin 1]
                                 [Fin 1, Fin 1, Fin 1, Fin 1, Fin 1] =
     Inr \<lparr> optimal_hedge_ratio = Fin 0, portfolio_variance = Fin 0,
           correlation = NaN,
           hedge_effectiveness =
             \<lparr> rsquared = NaN, variance_reduction = NaN, var_reduction = NaN \<rparr>,
           hedged_variance = Fin (24 / 25), unhedged_variance = Fin 0 \<rparr>"
  by (simp add: run_defs)

text \<open>
  A zero variance, in a returned result, leaves the quotients that divide by it not finite,
  whatever the other moments are.
\<close>

lemma zero_variance_fields:
  assumes "calculate_optimal_hedge_ratio h u = Inr r"
  shows "(hedged_variance r = Fin 0 \<longrightarrow>
            \<not> np_isfinite (optimal_hedge_ratio r)
          \<and> portfolio_variance r = NaN
          \<and> \<not> np_isfinite (correlation r)
          \<and> \<not> np_isfinite (rsquared (hedge_effectiveness r))
          \<and> variance_reduction (hedge_effectiveness r) = NaN
          \<and> var_reduction (hedge_effectiveness r) = NaN)
       \<and> (unhedged_variance r = Fin 0 \<longrightarrow>
            \<not> np_isfinite (correlation r)
          \<and> \<not> np_isfinite (rsquared (hedge_effectiveness r))
          \<and> \<not> np_isfinite (variance_reduction (hedge_effectiveness r))
          \<and> \<not> np_isfinite (var_reduction (hedge_effectiveness r)))"
proof -
  from assms obtain c where f:
    "hedged_variance r = np_var h"
    "unhedged_variance r = np_var u"
    "optimal_hedge_ratio r = fl_div c (np_var h)"
    "portfolio_variance r =
       fl_sub (fl_add (np_var u) (fl_mul (fl_square (fl_div c (np_var h))) (np_var h)))
              (fl_mul (fl_mul (Fin 2) (fl_div c (np_var h))) c)"
    "correlation r = fl_div c (fl_mul (fl_sqrt (np_var h)) (fl_sqrt (np_var u)))"
    "rsquared (hedge_effectiveness r) = fl_square (correlation r)"
    "variance_reduction (hedge_effectiveness r) =
       fl_div (fl_sub (np_var u) (portfolio_variance r)) (np_var u)"
    "var_reduction (hedge_effectiveness r) =
       fl_div (fl_sub (fl_mul (Fin (- norm_ppf_95)) (fl_sqrt (np_var u)))
                      (fl_mul (Fin (- norm_ppf_95)) (fl_sqrt (portfolio_variance r))))
              (fl_mul (Fin (- norm_ppf_95)) (fl_sqrt (np_var u)))"
    using body_fields [of norm_ppf_95 h u r]
    by (auto simp: calculate_optimal_hedge_ratio_def)
  have hedged: "\<not> np_isfinite (optimal_hedge_ratio r) \<and> portfolio_variance r = NaN
      \<and> \<not> np_isfinite (correlation r) \<and> \<not> np_isfinite (rsquared (hedge_effectiveness r))
      \<and> variance_reduction (hedge_effectiveness r) = NaN
      \<and> var_reduction (hedge_effectiveness r) = NaN"
    if zero: "hedged_variance r = Fin 0"
  proof -
    have vh: "np_var h = Fin 0" using zero f(1) by simp
    have ratio: "\<not> np_isfinite (optimal_hedge_ratio r)"
      by (simp add: f(3) vh fl_div_zero_nonfinite)
    have "fl_mul (fl_square (fl_div c (Fin 0))) (Fin 0) = NaN"
      by (rule fl_square_nonfinite_times_zero [OF fl_div_zero_nonfinite])
    then have pv: "portfolio_variance r = NaN"
      by (simp add: f(4) vh)
    have "fl_mul (Fin 0) (fl_sqrt (np_var u)) = Fin 0 \<or> fl_mul (Fin 0) (fl_sqrt (np_var u)) = NaN"
      by (rule fl_mul_zero_left)
    then have corr: "\<not> np_isfinite (correlation r)"
      unfolding f(5) vh by (simp add: fl_div_zero_or_NaN_nonfinite)
    have rsq: "\<not> np_isfinite (rsquared (hedge_effectiveness r))"
      unfolding f(6) using corr by (rule fl_square_nonfinite)
    have vred: "variance_reduction (hedge_effectiveness r) = NaN"
      by (simp add: f(7) pv)
    have vared: "var_reduction (hedge_effectiveness r) = NaN"
      by (simp add: f(8) pv)
    from ratio pv corr rsq vred vared show ?thesis by simp
  qed
  have unhedged: "\<not> np_isfinite (correlation r)
      \<and> \<not> np_isfinite (rsquared (hedge_effectiveness r))
      \<and> \<not> np_isfinite (variance_reduction (hedge_effectiveness r))
      \<and> \<not> np_isfinite (var_reduction (hedge_effectiveness r))"
    if zero: "unhedged_variance r = Fin 0"
  proof -
    have vu: "np_var u = Fin 0" using zero f(2) by simp
    have "fl_mul (fl_sqrt (np_var h)) (Fin 0) = Fin 0 \<or> fl_mul (fl_sqrt (np_var h)) (Fin 0) = NaN"
      by (rule fl_mul_zero_right)
    then have corr: "\<not> np_isfinite (correlation r)"
      unfolding f(5) vu by (simp add: fl_div_zero_or_NaN_nonfinite)
    have rsq: "\<not> np_isfinite (rsquared (hedge_effectiveness r))"
      unfolding f(6) using corr by (rule fl_square_nonfinite)
    have vred: "\<not> np_isfinite (variance_reduction (hedge_effectiveness r))"
      by (simp add: f(7) vu fl_div_zero_nonfinite)
    have vared: "\<not> np_isfinite (var_reduction (hedge_effectiveness r))"
      by (simp add: f(8) vu fl_div_zero_nonfinite)
    from corr rsq vred vared show ?thesis by simp
  qed
  from hedged unhedged show ?thesis by blast
qed

text \<open>
  Claim C3, amended. A zero variance makes nothing raise: for every pair of series of equal
  length the function returns a result. When the returned \<open>hedged_variance\<close> is zero,
  \<open>optimal_hedge_ratio\<close>, \<open>correlation\<close> and \<open>rsquared\<close> are not finite (not-a-number
  or an infinity) and \<open>portfolio_variance\<close>, \<open>variance_reduction\<close> and
  \<open>var_reduction\<close> are not-a-number. When the returned \<open>unhedged_variance\<close> is zero,
  \<open>correlation\<close>, \<open>rsquared\<close>, \<open>variance_reduction\<close> and \<open>var_reduction\<close> are not
  finite.
\<close>

theorem zero_variance_results_not_finite:
  assumes "length h = length u"
  shows "\<exists>r. calculate_optimal_hedge_ratio h u = Inr r
     \<and> (hedged_variance r = Fin 0 \<longrightarrow>
            \<not> np_isfinite (optimal_hedge_ratio r)
          \<and> portfolio_variance r = NaN
          \<and> \<not> np_isfinite (correlation r)
          \<and> \<not> np_isfinite (rsquared (hedge_effectiveness r))
          \<and> variance_reduction (hedge_effectiveness r) = NaN
          \<and> var_reduction (hedge_effectiveness r) = NaN)
     \<and> (unhedged_variance r = Fin 0 \<longrightarrow>
            \<not> np_isfinite (correlation r)
          \<and> \<not> np_isfinite (rsquared (hedge_effectiveness r))
          \<and> \<not> np_isfinite (variance_reduction (hedge_effectiveness r))
          \<and> \<not> np_isfinite (var_reduction (hedge_effectiveness r)))"
proof -
  from assms obtain r where r: "calculate_optimal_hedge_ratio h u = Inr r"
    using equal_length_returns [of h u norm_ppf_95]
    by (auto simp: calculate_optimal_hedge_ratio_def)
  from zero_variance_fields [OF r] r show ?thesis by blast
qed

theorem zero_variance_results_not_finite_witness:
  "length [Fin 3, Fin 3] = length [Fin 1, Fin 2]
   \<and> (\<exists>r. calculate_optimal_hedge_ratio [Fin 3, Fin 3] [Fin 1, Fin 2] = Inr r
        \<and> hedged_variance r = Fin 0
        \<and> \<not> np_isfinite (optimal_hedge_ratio r)
        \<and> portfolio_variance r = NaN
        \<and> \<not> np_isfinite (correlation r)
        \<and> \<not> np_isfinite (rsquared (hedge_effectiveness r))
        \<and> variance_reduction (hedge_effectiveness r) = NaN
        \<and> var_reduction (hedge_effectiveness r) = NaN)
   \<and> length [Fin 1, Fin 2] = length [Fin 3, Fin 3]
   \<and> (\<exists>r. calculate_optimal_hedge_ratio [Fin 1, Fin 2] [Fin 3, Fin 3] = Inr r
        \<and> unhedged_variance r = Fin 0
        \<and> \<not> np_isfinite (correlation r)
        \<and> \<not> np_isfinite (rsquared (hedge_effectiveness r))
        \<and> \<not> np_isfinite (variance_reduction (hedge_effectiveness r))
        \<and> \<not> np_isfinite (var_reduction (hedge_effectiveness r)))"
proof -
  have a: "length [Fin 3, Fin 3] = length [Fin 1, Fin 2]" by simp
  have b: "length [Fin 1, Fin 2] = length [Fin 3, Fin 3]" by simp
  from zero_variance_results_not_finite [OF a] obtain r where
    "calculate_optimal_hedge_ratio [Fin 3, Fin 3] [Fin 1, Fin 2] = Inr r"
    "hedged_variance r = Fin 0 \<longrightarrow>
            \<not> np_isfinite (optimal_hedge_ratio r)
          \<and> portfolio_variance r = NaN
          \<and> \<not> np_isfinite (correlation r)
          \<and> \<not> np_isfinite (rsquared (hedge_effectiveness r))
          \<and> variance_reduction (hedge_effectiveness r) = NaN
          \<and> var_reduction (hedge_effectiveness r) = NaN"
    by blast
  moreover from this(1) have "hedged_variance r = Fin 0"
    using run_constant_hedged_two by auto
  ultimately have first: "\<exists>r. calculate_optimal_hedge_ratio [Fin 3, Fin 3] [Fin 1, Fin 2] = Inr r
        \<and> hedged_variance r = Fin 0
        \<and> \<not> np_isfinite (optimal_hedge_ratio r)
        \<and> portfolio_variance r = NaN
        \<and> \<not> np_isfinite (correlation r)
        \<and> \<not> np_isfinite (rsquared (hedge_effectiveness r))
        \<and> variance_reduction (hedge_effectiveness r) = NaN
        \<and> var_reduction (hedge_effectiveness r) = NaN"
    by blast
  from zero_variance_results_not_finite [OF b] obtain s where
    "calculate_optimal_hedge_ratio [Fin 1, Fin 2] [Fin 3, Fin 3] = Inr s"
    "unhedged_variance s = Fin 0 \<longrightarrow>
            \<not> np_isfinite (correlation s)
          \<and> \<not> np_isfinite (rsquared (hedge_effectiveness s))
          \<and> \<not> np_isfinite (variance_reduction (hedge_effectiveness s))
          \<and> \<not> np_isfinite (var_reduction (hedge_effectiveness s))"
    by blast
  moreover from this(1) have "unhedged_variance s = Fin 0"
    using run_constant_unhedged_two by auto
  ultimately have second: "\<exists>r. calculate_optimal_hedge_ratio [Fin 1, Fin 2] [Fin 3, Fin 3] = Inr r
        \<and> unhedged_variance r = Fin 0
        \<and> \<not> np_isfinite (correlation r)
        \<and> \<not> np_isfinite (rsquared (hedge_effectiveness r))
        \<and> \<not> np_isfinite (variance_reduction (hedge_effectiveness r))
        \<and> \<not> np_isfinite (var_reduction (hedge_effectiveness r))"
    by blast
  from a b first second show ?thesis by blast
qed

text \<open>
  Claim C5, as stated: empty sequences and non-finite values are rejected. They are not:
  two empty series, and a series holding an infinity, both give a returned result.
\<close>

theorem no_input_validation_counterexample:
  "calculate_optimal_hedge_ratio [] [] =
     Inr \<lparr> optimal_hedge_ratio = NaN, portfolio_variance = NaN,
           correlation = NaN,
           hedge_effectiveness =
             \<lparr> rsquared = NaN, variance_reduction = NaN, var_reduction = NaN \<rparr>,
           hedged_variance = NaN, unhedged_variance = NaN \<rparr>
   \<and> calculate_optimal_hedge_ratio [Fin 1, PInf] [Fin 1, Fin 2] =
     Inr \<lparr> optimal_hedge_ratio = NaN, portfolio_variance = NaN,
           correlation = NaN,
           hedge_effectiveness =
             \<lparr> rsquared = NaN, variance_reduction = NaN, var_reduction = NaN \<rparr>,
           hedged_variance = NaN, unhedged_variance = Fin (1 / 4) \<rparr>"
  by (simp add: run_defs)

text \<open>
  Claim C5, amended. The function validates nothing. It raises exactly when the two series
  differ in length, and the error is the \<open>ValueError\<close> of the covariance call; for every
  pair of series of equal length, empty or with non-finite values included, it returns a
  result. The confidence level is not an input.
\<close>

theorem raises_exactly_on_length_mismatch:
  "(calculate_optimal_hedge_ratio h u = Inl ValueError) = (length h \<noteq> length u)
   \<and> (\<exists>r. calculate_optimal_hedge_ratio h u = Inr r) = (length h = length u)"
  by (auto simp: calculate_optimal_hedge_ratio_def hedge_ratio_body_def np_cov_01_def Let_def)

section \<open>Relations between the returned fields\<close>

lemma body_Inr_cov: "hedge_ratio_body z h u = Inr r \<Longrightarrow> \<exists>c. np_cov_01 h u = Inr c"
  by (auto simp: hedge_ratio_body_def Let_def split: sum.splits)

text \<open>
  Claim C9. In every returned result the field \<open>rsquared\<close> of \<open>hedge_effectiveness\<close> is
  the square of the returned \<open>correlation\<close>: the product of the correlation with itself,
  which for a finite correlation \<open>c\<close> is the number \<open>c\<^sup>2\<close>.
\<close>

theorem rsquared_is_correlation_squared:
  assumes "calculate_optimal_hedge_ratio h u = Inr r"
  shows "rsquared (hedge_effectiveness r) = fl_mul (correlation r) (correlation r)
       \<and> (\<forall>c. correlation r = Fin c \<longrightarrow> rsquared (hedge_effectiveness r) = Fin (c\<^sup>2))"
  using assms
  by (auto simp: calculate_optimal_hedge_ratio_def hedge_ratio_body_def Let_def fl_square_def
      power2_eq_square split: sum.splits)

theorem rsquared_is_correlation_squared_witness:
  "calculate_optimal_hedge_ratio [Fin 1, Fin 2, Fin 3] [Fin 3, Fin 2, Fin 1] =
     Inr \<lparr> optimal_hedge_ratio = Fin (- 3 / 2), portfolio_variance = Fin (- 5 / 6),
           correlation = Fin (- 3 / 2),
           hedge_effectiveness =
             \<lparr> rsquared = Fin (9 / 4), variance_reduction = Fin (9 / 4),
               var_reduction = NaN \<rparr>,
           hedged_variance = Fin (2 / 3), unhedged_variance = Fin (2 / 3) \<rparr>
   \<and> Fin (9 / 4) = fl_mul (Fin (- 3 / 2)) (Fin (- 3 / 2))
   \<and> Fin (9 / 4) = Fin ((- 3 / 2)\<^sup>2)"
  using rsquared_is_correlation_squared [OF run_reversed_three] run_reversed_three
  by simp

text \<open>
  Claim C10. Whenever the returned \<open>unhedged_variance\<close> is strictly positive and the returned
  \<open>portfolio_variance\<close> is non-negative, the returned \<open>var_reduction\<close> equals
  \<open>1 - sqrt (portfolio_variance / unhedged_variance)\<close>. The normal quantile cancels out of
  the quotient: the identity holds for the body of the function run with any nonzero
  quantile, so the value does not depend on the confidence level.
\<close>

theorem var_reduction_formula:
  assumes "z \<noteq> 0"
    and "hedge_ratio_body z h u = Inr r"
    and "unhedged_variance r = Fin uv" and "0 < uv"
    and "portfolio_variance r = Fin pv" and "0 \<le> pv"
  shows "var_reduction (hedge_effectiveness r) = Fin (1 - sqrt (pv / uv))"
proof -
  obtain c where c: "np_cov_01 h u = Inr c"
    using assms(2) body_Inr_cov by blast
  have suv: "sqrt uv \<noteq> 0" using \<open>0 < uv\<close> by simp
  have fields: "np_var u = Fin uv"
    "fl_sub (fl_add (np_var u) (fl_mul (fl_square (fl_div c (np_var h))) (np_var h)))
            (fl_mul (fl_mul (Fin 2) (fl_div c (np_var h))) c) = Fin pv"
    using assms(2,3,5) c by (auto simp: hedge_ratio_body_def Let_def)
  have vr: "var_reduction (hedge_effectiveness r) =
      fl_div (fl_sub (fl_mul (Fin (- z)) (fl_sqrt (Fin uv)))
                     (fl_mul (Fin (- z)) (fl_sqrt (Fin pv))))
             (fl_mul (Fin (- z)) (fl_sqrt (Fin uv)))"
    using assms(2) c fields by (auto simp: hedge_ratio_body_def Let_def)
  have alg: "(z * sqrt pv - z * sqrt uv) / (- (z * sqrt uv)) = 1 - sqrt (pv / uv)"
    using \<open>z \<noteq> 0\<close> suv by (simp add: real_sqrt_divide field_simps)
  show ?thesis
    unfolding vr using assms(1,4,6) suv alg by simp
qed

theorem var_reduction_formula_witness:
  "norm_ppf_95 \<noteq> 0
   \<and> hedge_ratio_body norm_ppf_95 [Fin 1, Fin (- 1), Fin 1, Fin (- 1)]
                                   [Fin 1, Fin 1, Fin (- 1), Fin (- 1)] =
     Inr \<lparr> optimal_hedge_ratio = Fin 0, portfolio_variance = Fin 1,
           correlation = Fin 0,
           hedge_effectiveness =
             \<lparr> rsquared = Fin 0, variance_reduction = Fin 0, var_reduction = Fin 0 \<rparr>,
           hedged_variance = Fin 1, unhedged_variance = Fin 1 \<rparr>
   \<and> (0::real) < 1 \<and> (0::real) \<le> 1
   \<and> Fin 0 = Fin (1 - sqrt (1 / 1))"
proof -
  have nz: "norm_ppf_95 \<noteq> 0" by (simp add: norm_ppf_95_def)
  note run = run_uncorrelated_four [unfolded calculate_optimal_hedge_ratio_def]
  have "var_reduction (hedge_effectiveness
          \<lparr> optimal_hedge_ratio = Fin 0, portfolio_variance = Fin 1,
            correlation = Fin 0,
            hedge_effectiveness =
              \<lparr> rsquared = Fin 0, variance_reduction = Fin 0, var_reduction = Fin 0 \<rparr>,
            hedged_variance = Fin 1, unhedged_variance = Fin 1 \<rparr>) = Fin (1 - sqrt (1 / 1))"
    by (rule var_reduction_formula [OF nz run]) simp_all
  then show ?thesis using nz run by simp
qed

section \<open>The portfolio variance\<close>

text \<open>
  For any two series, finite or not: when the returned portfolio variance is a number, so
  is the unhedged variance, and the portfolio variance does not exceed it.
\<close>

lemma numeric_pvariance_bounded:
  assumes "calculate_optimal_hedge_ratio h u = Inr r"
    and "portfolio_variance r = Fin pv"
  shows "\<exists>uv. unhedged_variance r = Fin uv \<and> pv \<le> uv"
proof -
  obtain c where c: "np_cov_01 h u = Inr c"
    using assms(1) body_Inr_cov [of norm_ppf_95 h u r]
    by (auto simp: calculate_optimal_hedge_ratio_def)
  have fields: "unhedged_variance r = np_var u"
    "fl_sub (fl_add (np_var u) (fl_mul (fl_square (fl_div c (np_var h))) (np_var h)))
            (fl_mul (fl_mul (Fin 2) (fl_div c (np_var h))) c) = Fin pv"
    using assms c
    by (auto simp: calculate_optimal_hedge_ratio_def hedge_ratio_body_def Let_def)
  from fields(2) obtain x y where
    x: "fl_add (np_var u) (fl_mul (fl_square (fl_div c (np_var h))) (np_var h)) = Fin x"
    and y: "fl_mul (fl_mul (Fin 2) (fl_div c (np_var h))) c = Fin y"
    and pv: "pv = x - y"
    by (auto dest: fl_sub_eq_Fin)
  from x obtain uv a where
    uv: "np_var u = Fin uv"
    and a: "fl_mul (fl_square (fl_div c (np_var h))) (np_var h) = Fin a"
    and xa: "x = uv + a"
    by (auto dest: fl_add_eq_Fin)
  from a obtain q vh where
    q: "fl_square (fl_div c (np_var h)) = Fin q" and vh: "np_var h = Fin vh"
    and aq: "a = q * vh"
    by (auto dest: fl_mul_eq_Fin)
  from q obtain k where k: "fl_div c (Fin vh) = Fin k" and qk: "q = k * k"
    by (auto simp: fl_square_def vh dest: fl_mul_eq_Fin)
  from k obtain cv where cv: "c = Fin cv" and vh0: "vh \<noteq> 0" and kc: "k = cv / vh"
    by (auto dest: fl_div_Fin_eq_Fin)
  have "0 \<le> vh" using np_var_nonneg [OF vh] .
  with vh0 have pos: "0 < vh" by simp
  have "y = 2 * k * cv" using y k cv vh by simp
  then have "pv = uv + k * k * vh - 2 * k * cv"
    using pv xa aq qk by simp
  also have "\<dots> = uv - cv\<^sup>2 / vh"
    using vh0 by (simp add: kc power2_eq_square field_simps)
  finally have "pv \<le> uv" using pos by simp
  with fields(1) uv show ?thesis by simp
qed

text \<open>
  Claim C7, as stated: for all valid inputs the returned portfolio variance is at most the
  returned unhedged variance. On the hedged series 1, 1 and the unhedged series 1, 2 the
  hedge ratio is zero divided by zero, the returned portfolio variance is not-a-number, and
  not-a-number is not at most 1 / 4.
\<close>

theorem nan_portfolio_variance_counterexample:
  "calculate_optimal_hedge_ratio [Fin 1, Fin 1] [Fin 1, Fin 2] =
     Inr \<lparr> optimal_hedge_ratio = NaN, portfolio_variance = NaN,
           correlation = NaN,
           hedge_effectiveness =
             \<lparr> rsquared = NaN, variance_reduction = NaN, var_reduction = NaN \<rparr>,
           hedged_variance = Fin 0, unhedged_variance = Fin (1 / 4) \<rparr>
   \<and> \<not> fl_le NaN (Fin (1 / 4))"
  by (simp add: run_defs)

text \<open>
  Claim C7, amended. In every returned result whose \<open>portfolio_variance\<close> is a finite
  number, \<open>unhedged_variance\<close> is a finite number too and \<open>portfolio_variance\<close> is at
  most \<open>unhedged_variance\<close>.
\<close>

theorem finite_portfolio_variance_le_unhedged:
  assumes "calculate_optimal_hedge_ratio h u = Inr r"
    and "np_isfinite (portfolio_variance r)"
  shows "np_isfinite (unhedged_variance r)
       \<and> fl_le (portfolio_variance r) (unhedged_variance r)"
proof -
  from assms(2) obtain pv where pv: "portfolio_variance r = Fin pv"
    by (cases "portfolio_variance r") auto
  from numeric_pvariance_bounded [OF assms(1) pv] obtain uv where
    "unhedged_variance r = Fin uv" and "pv \<le> uv" by blast
  with pv show ?thesis by simp
qed

theorem finite_portfolio_variance_le_unhedged_witness:
  "calculate_optimal_hedge_ratio [Fin 1, Fin 2, Fin 3, Fin 4] [Fin 2, Fin 1, Fin 4, Fin 3] =
     Inr \<lparr> optimal_hedge_ratio = Fin (4 / 5), portfolio_variance = Fin (9 / 20),
           correlation = Fin (4 / 5),
           hedge_effectiveness =
             \<lparr> rsquared = Fin (16 / 25), variance_reduction = Fin (16 / 25),
               var_reduction = Fin (2 / 5) \<rparr>,
           hedged_variance = Fin (5 / 4), unhedged_variance = Fin (5 / 4) \<rparr>
   \<and> np_isfinite (Fin (9 / 20))
   \<and> np_isfinite (Fin (5 / 4))
   \<and> fl_le (Fin (9 / 20)) (Fin (5 / 4))"
proof -
  have fin: "np_isfinite (portfolio_variance
     \<lparr> optimal_hedge_ratio = Fin (4 / 5), portfolio_variance = Fin (9 / 20),
       correlation = Fin (4 / 5),
       hedge_effectiveness =
         \<lparr> rsquared = Fin (16 / 25), variance_reduction = Fin (16 / 25),
           var_reduction = Fin (2 / 5) \<rparr>,
       hedged_variance = Fin (5 / 4), unhedged_variance = Fin (5 / 4) \<rparr>)"
    by simp
  from finite_portfolio_variance_le_unhedged [OF run_partly_hedged_four fin]
  show ?thesis using run_partly_hedged_four by simp
qed

text \<open>
  Claim C6, as stated: for every valid input the portfolio variance is non-negative up to
  a tolerance. On the constant hedged series 2, 2, 2 and the unhedged series 1, 2, 3 the
  returned portfolio variance is not-a-number, which is not at least \<open>- 1 / 10\<^sup>9\<close>.
\<close>

theorem undefined_portfolio_variance_counterexample:
  "calculate_optimal_hedge_ratio [Fin 2, Fin 2, Fin 2] [Fin 1, Fin 2, Fin 3] =
     Inr \<lparr> optimal_hedge_ratio = NaN, portfolio_variance = NaN,
           correlation = NaN,
           hedge_effectiveness =
             \<lparr> rsquared = NaN, variance_reduction = NaN, var_reduction = NaN \<rparr>,
           hedged_variance = Fin 0, unhedged_variance = Fin (2 / 3) \<rparr>
   \<and> \<not> fl_le (Fin (- (1 / 1000000000))) NaN"
  by (simp add: run_defs)

text \<open>
  Claim C6, amended. The returned \<open>portfolio_variance\<close> is never clamped or replaced: in
  every returned result it is the value of
  \<open>(unhedged_variance + optimal_hedge_ratio\<^sup>2 * hedged_variance)
    - 2 * optimal_hedge_ratio * covariance\<close>
  on the returned fields and the covariance of the two series, whatever that value is.
\<close>

theorem portfolio_variance_is_raw_formula:
  assumes "calculate_optimal_hedge_ratio h u = Inr r"
  shows "\<exists>c. np_cov_01 h u = Inr c
     \<and> portfolio_variance r =
         fl_sub (fl_add (unhedged_variance r)
                        (fl_mul (fl_square (optimal_hedge_ratio r)) (hedged_variance r)))
                (fl_mul (fl_mul (Fin 2) (optimal_hedge_ratio r)) c)"
  using body_fields [of norm_ppf_95 h u r] assms
  by (auto simp: calculate_optimal_hedge_ratio_def)

theorem portfolio_variance_is_raw_formula_witness:
  "calculate_optimal_hedge_ratio [Fin 1, Fin 2, Fin 3, Fin 4] [Fin 2, Fin 1, Fin 4, Fin 3] =
     Inr \<lparr> optimal_hedge_ratio = Fin (4 / 5), portfolio_variance = Fin (9 / 20),
           correlation = Fin (4 / 5),
           hedge_effectiveness =
             \<lparr> rsquared = Fin (16 / 25), variance_reduction = Fin (16 / 25),
               var_reduction = Fin (2 / 5) \<rparr>,
           hedged_variance = Fin (5 / 4), unhedged_variance = Fin (5 / 4) \<rparr>
   \<and> np_cov_01 [Fin 1, Fin 2, Fin 3, Fin 4] [Fin 2, Fin 1, Fin 4, Fin 3] = Inr (Fin 1)
   \<and> Fin (9 / 20) =
       fl_sub (fl_add (Fin (5 / 4)) (fl_mul (fl_square (Fin (4 / 5))) (Fin (5 / 4))))
              (fl_mul (fl_mul (Fin 2) (Fin (4 / 5))) (Fin 1))"
  using portfolio_variance_is_raw_formula [OF run_partly_hedged_four]
    run_partly_hedged_four cov_partly_hedged_four
  by simp

end
